theory Spec2Isabelle
  imports Main "HOL-Library.Sublist"
begin

section \<open>Data model\<close>

text \<open>
  A parsed table (a pandas DataFrame) is kept as its column names and its rows;
  \<open>df_columns\<close> is \<open>list(df.columns)\<close> and \<open>df_values\<close> is \<open>df.values.tolist()\<close>.
\<close>

datatype cell = IntCell int | StrCell string | NaCell

record DataFrame =
  df_columns :: "string list"
  df_values :: "cell list list"

text \<open>The content of a Tableview widget, as set by \<open>build_table_data\<close>.\<close>

record tableview =
  coldata :: "string list"
  rowdata :: "cell list list"

datatype exn = AttributeError | KeyError | IndexError | TclError | ParserError

text \<open>
  The three option frames of \<open>src/dataimport/DataImportPopup.py\<close>. Each Tk variable is
  kept as the text the widget holds: \<open>CSVOptionsFrame separator_var missing_values_var\<close>,
  \<open>ExcelOptionsFrame sheet_names sheet_var skiprows_var missing_values_var\<close>.
\<close>

datatype options_frame =
    CSVOptionsFrame string string
  | ExcelOptionsFrame "string list" string string string
  | SPSSOptionsFrame

text \<open>
  The libraries the popup calls are parameters of the model. A call that raises is
  \<open>None\<close>. \<open>read_csv path sep na_values\<close>, \<open>read_excel path sheet_name skiprows na_values\<close>
  and \<open>read_spss path\<close> are the pandas readers, \<open>ExcelFile path\<close> is
  \<open>pd.ExcelFile(path).sheet_names\<close>, and \<open>IntVar_get text\<close> is what \<open>IntVar.get()\<close>
  returns for an entry holding \<open>text\<close>. \<open>unicode_word c\<close> says whether the Unicode
  database that \<open>re\<close> consults classes the character \<open>c\<close> as a word character; it
  is asked only about characters beyond ASCII.
\<close>

record world =
  read_csv :: "string \<Rightarrow> string \<Rightarrow> string option \<Rightarrow> DataFrame option"
  read_excel :: "string \<Rightarrow> string \<Rightarrow> int \<Rightarrow> string option \<Rightarrow> DataFrame option"
  read_spss :: "string \<Rightarrow> DataFrame option"
  ExcelFile :: "string \<Rightarrow> string list option"
  IntVar_get :: "string \<Rightarrow> int option"
  unicode_word :: "char \<Rightarrow> bool"

text \<open>
  The attributes of a \<open>DataImportPopup\<close>. \<open>filepath\<close> is \<open>None\<close> until the first
  assignment (the attribute does not exist before). \<open>options_packed\<close> records whether
  the frame held by \<open>import_options_frame\<close> is packed (\<open>pack\<close>) or has been removed
  from the layout (\<open>forget\<close>). \<open>import_btn\<close> is the table the Import button's command is
  bound to. \<open>shown_errors\<close> lists the texts passed to \<open>Messagebox.show_error\<close>.
\<close>

record popup =
  filepath :: "string option"
  data_frame :: "DataFrame option"
  show_preview :: int
  import_options_frame :: "options_frame option"
  options_packed :: bool
  preview_tableview :: tableview
  import_btn :: "DataFrame option"
  destroyed :: bool
  shown_errors :: "string list"

definition init_popup :: popup where
  "init_popup =
     \<lparr>filepath = None, data_frame = None, show_preview = 1,
      import_options_frame = None, options_packed = False,
      preview_tableview = \<lparr>coldata = [], rowdata = []\<rparr>,
      import_btn = None, destroyed = False, shown_errors = []\<rparr>"

section \<open>Strings\<close>

text \<open>\<open>s.endswith(suf)\<close>: the last \<open>len(suf)\<close> characters of \<open>s\<close> are \<open>suf\<close>.\<close>

definition endswith :: "string \<Rightarrow> string \<Rightarrow> bool" where
  "endswith s suf =
     (length suf \<le> length s \<and> drop (length s - length suf) s = suf)"

text \<open>
  The character class \<open>[ \w-]\<close> of the pattern in \<open>show\<close>. A character of the model
  stands for one character of the Python string (HOL's characters reach U+00FF).
  Among the ASCII characters the class holds the space, the letters, the digits, the
  underscore and the hyphen; a character beyond ASCII is in the class when it is a
  word character of Unicode, as \<open>\w\<close> of a \<open>str\<close> pattern takes it.
\<close>

definition name_char :: "world \<Rightarrow> char \<Rightarrow> bool" where
  "name_char w c =
     (if (of_char c :: nat) < 128
      then c \<in> set (''abcdefghijklmnopqrstuvwxyz'' @ ''ABCDEFGHIJKLMNOPQRSTUVWXYZ''
                     @ ''0123456789'' @ ''_ -'')
      else unicode_word w c)"

text \<open>The lookahead \<open>(?=\.)\<close>: the next character is a dot.\<close>

fun lookahead_dot :: "string \<Rightarrow> bool" where
  "lookahead_dot [] = False"
| "lookahead_dot (c # cs) = (c = CHR ''.'')"

text \<open>
  \<open>[ \w-]+?(?=\.)\<close> anchored at the start of the text: the lazy quantifier takes one
  character of the class, tries the lookahead, and takes one more only when the
  lookahead fails. \<open>acc\<close> is what has been taken so far.
\<close>

fun lazy_run :: "world \<Rightarrow> string \<Rightarrow> string \<Rightarrow> string option" where
  "lazy_run w acc [] = None"
| "lazy_run w acc (c # cs) =
     (if name_char w c
      then (if lookahead_dot cs then Some (acc @ [c]) else lazy_run w (acc @ [c]) cs)
      else None)"

text \<open>\<open>re.search\<close>: the match at the leftmost position that has one.\<close>

fun re_search :: "world \<Rightarrow> string \<Rightarrow> string option" where
  "re_search w [] = None"
| "re_search w (c # cs) =
     (case lazy_run w [] (c # cs) of Some m \<Rightarrow> Some m | None \<Rightarrow> re_search w cs)"

section \<open>The option frames\<close>

definition separator_options :: "string \<rightharpoonup> string" where
  "separator_options =
     ['','' \<mapsto> '','', '';'' \<mapsto> '';'', ''Space'' \<mapsto> '' '', ''Tab'' \<mapsto> [CHR 0x09]]"

text \<open>
  The getters are called on whatever \<open>import_options_frame\<close> holds; on \<open>None\<close> or on a
  frame of another class the attribute lookup raises \<open>AttributeError\<close>.
\<close>

fun get_separator :: "options_frame option \<Rightarrow> exn + string" where
  "get_separator (Some (CSVOptionsFrame separator_var missing_values_var)) =
     (case separator_options separator_var of
        None \<Rightarrow> Inl KeyError
      | Some s \<Rightarrow> Inr s)"
| "get_separator _ = Inl AttributeError"

fun get_sheet_name :: "options_frame option \<Rightarrow> exn + string" where
  "get_sheet_name (Some (ExcelOptionsFrame sheet_names sheet_var skiprows_var missing_values_var)) =
     Inr sheet_var"
| "get_sheet_name _ = Inl AttributeError"

fun get_skiprows :: "world \<Rightarrow> options_frame option \<Rightarrow> exn + int" where
  "get_skiprows w (Some (ExcelOptionsFrame sheet_names sheet_var skiprows_var missing_values_var)) =
     (case IntVar_get w skiprows_var of
        None \<Rightarrow> Inl TclError
      | Some n \<Rightarrow> Inr n)"
| "get_skiprows w _ = Inl AttributeError"

fun get_na_value :: "options_frame option \<Rightarrow> exn + string option" where
  "get_na_value (Some (CSVOptionsFrame separator_var missing_values_var)) =
     Inr (if missing_values_var = ''Default'' then None else Some missing_values_var)"
| "get_na_value (Some (ExcelOptionsFrame sheet_names sheet_var skiprows_var missing_values_var)) =
     Inr (if missing_values_var = ''Default'' then None else Some missing_values_var)"
| "get_na_value _ = Inl AttributeError"

text \<open>
  \<open>ExcelOptionsFrame.__init__\<close>: the sheet selector starts at \<open>sheet_names[0]\<close>, which
  raises on an empty list; the skip-rows entry starts at 0 and the missing-values entry
  at \<open>Default\<close>.
\<close>

fun new_ExcelOptionsFrame :: "string list \<Rightarrow> exn + options_frame" where
  "new_ExcelOptionsFrame [] = Inl IndexError"
| "new_ExcelOptionsFrame (s # ss) = Inr (ExcelOptionsFrame (s # ss) s ''0'' ''Default'')"

definition new_CSVOptionsFrame :: options_frame where
  "new_CSVOptionsFrame = CSVOptionsFrame '','' ''Default''"

section \<open>The popup's handlers\<close>

text \<open>
  The first half of \<open>__import_preview_data\<close> (the \<open>if\<close>/\<open>elif\<close> chain over the path):
  it yields the table, or stops after the skip-rows message, or stops silently.
\<close>

datatype loaded = Loaded DataFrame | SkiprowsRejected | Aborted

definition load_selected :: "world \<Rightarrow> string \<Rightarrow> options_frame option \<Rightarrow> loaded" where
  "load_selected w fp frame =
     (if endswith fp ''.csv'' then
        (case get_separator frame of
           Inl e \<Rightarrow> Aborted
         | Inr sep \<Rightarrow>
            (case get_na_value frame of
               Inl e \<Rightarrow> Aborted
             | Inr na \<Rightarrow>
                (case read_csv w fp sep na of
                   None \<Rightarrow> Aborted
                 | Some df \<Rightarrow> Loaded df)))
      else if endswith fp ''.xlsx'' then
        (case get_skiprows w frame of
           Inl e \<Rightarrow> SkiprowsRejected
         | Inr n0 \<Rightarrow>
            (case get_sheet_name frame of
               Inl e \<Rightarrow> Aborted
             | Inr sheet \<Rightarrow>
                (case get_skiprows w frame of
                   Inl e \<Rightarrow> Aborted
                 | Inr n \<Rightarrow>
                    (case get_na_value frame of
                       Inl e \<Rightarrow> Aborted
                     | Inr na \<Rightarrow>
                        (case read_excel w fp sheet n na of
                           None \<Rightarrow> Aborted
                         | Some df \<Rightarrow> Loaded df)))))
      else if endswith fp ''.sav'' then
        (case read_spss w fp of
           None \<Rightarrow> Aborted
         | Some df \<Rightarrow> Loaded df)
      else Aborted)"

definition skiprows_msg :: string where
  "skiprows_msg = ''Skip rows must be a number.''"

definition unsupported_msg :: string where
  "unsupported_msg =
     ''Selected file must be one of the following file types: csv, xlsx, .sav.''"

text \<open>
  \<open>__import_preview_data\<close>. Reading \<open>self.filepath\<close> before any file was selected raises
  (the left summand carries the exception and the state it leaves). After a successful
  read the preview is rebuilt, from the table or empty according to \<open>show_preview\<close>, and
  the Import button is replaced by one bound to the new table.
\<close>

definition import_preview_data :: "world \<Rightarrow> popup \<Rightarrow> (exn \<times> popup) + popup" where
  "import_preview_data w p =
     (case filepath p of
        None \<Rightarrow> Inl (AttributeError, p)
      | Some fp \<Rightarrow>
         (case load_selected w fp (import_options_frame p) of
            Aborted \<Rightarrow> Inr p
          | SkiprowsRejected \<Rightarrow> Inr (p\<lparr>shown_errors := shown_errors p @ [skiprows_msg]\<rparr>)
          | Loaded df \<Rightarrow>
             Inr (p\<lparr>preview_tableview :=
                       (if show_preview p = 1
                        then \<lparr>coldata = df_columns df, rowdata = df_values df\<rparr>
                        else \<lparr>coldata = [], rowdata = []\<rparr>),
                     import_btn := Some df\<rparr>)))"

text \<open>\<open>self.import_options_frame.forget()\<close>, guarded by \<open>is not None\<close>.\<close>

definition forget_options :: "popup \<Rightarrow> popup" where
  "forget_options p =
     (if import_options_frame p \<noteq> None then p\<lparr>options_packed := False\<rparr> else p)"

text \<open>
  \<open>__select_file\<close>, given what the file dialog returned (\<open>''''\<close> when the user
  cancelled).
\<close>

definition select_file :: "world \<Rightarrow> string \<Rightarrow> popup \<Rightarrow> (exn \<times> popup) + popup" where
  "select_file w current_filepath p =
     (if current_filepath = [] then Inr p
      else
        let p1 = forget_options (p\<lparr>filepath := Some current_filepath\<rparr>) in
        if endswith current_filepath ''.csv'' then
          import_preview_data w
            (p1\<lparr>import_options_frame := Some new_CSVOptionsFrame, options_packed := True\<rparr>)
        else if endswith current_filepath ''.xlsx'' then
          (case ExcelFile w current_filepath of
             None \<Rightarrow> Inl (ParserError, p1)
           | Some names \<Rightarrow>
              (case new_ExcelOptionsFrame names of
                 Inl e \<Rightarrow> Inl (e, p1)
               | Inr frame \<Rightarrow>
                  import_preview_data w
                    (p1\<lparr>import_options_frame := Some frame, options_packed := True\<rparr>)))
        else if endswith current_filepath ''.sav'' then
          import_preview_data w
            (p1\<lparr>import_options_frame := Some SPSSOptionsFrame, options_packed := True\<rparr>)
        else Inr (p1\<lparr>shown_errors := shown_errors p1 @ [unsupported_msg]\<rparr>))"

text \<open>\<open>__return_data\<close>, and a click on the Import button, which calls it with the bound table.\<close>

definition return_data :: "DataFrame \<Rightarrow> popup \<Rightarrow> popup" where
  "return_data df p = p\<lparr>data_frame := Some df, destroyed := True\<rparr>"

definition click_import :: "popup \<Rightarrow> popup" where
  "click_import p = (case import_btn p of None \<Rightarrow> p | Some df \<Rightarrow> return_data df p)"

text \<open>Closing the window (\<open>WM_DELETE_WINDOW\<close> is bound to \<open>destroy\<close>).\<close>

definition close_window :: "popup \<Rightarrow> popup" where
  "close_window p = p\<lparr>destroyed := True\<rparr>"

text \<open>
  The dictionary \<open>show\<close> returns once the window is gone. Both a missing \<open>filepath\<close>
  attribute and a failed search (\<open>None.group\<close>) raise inside the \<open>try\<close> and give the name
  \<open>None\<close>.
\<close>

record show_dict =
  dict_data_frame :: "DataFrame option"
  dict_data_name :: "string option"

definition show_result :: "world \<Rightarrow> popup \<Rightarrow> show_dict" where
  "show_result w p =
     \<lparr>dict_data_frame = data_frame p,
      dict_data_name = (case filepath p of None \<Rightarrow> None | Some fp \<Rightarrow> re_search w fp)\<rparr>"

text \<open>The state a handler leaves behind, whether it returned or raised.\<close>

fun state_after :: "(exn \<times> popup) + popup \<Rightarrow> popup" where
  "state_after (Inl (e, p)) = p"
| "state_after (Inr p) = p"

fun raised :: "(exn \<times> popup) + popup \<Rightarrow> exn option" where
  "raised (Inl (e, p)) = Some e"
| "raised (Inr p) = None"

section \<open>User input on the widgets\<close>

text \<open>
  What the toolkit does when the user edits a widget: typing in an entry or a combobox
  changes the Tk variable behind it, and the check box switches \<open>show_preview\<close> between
  its \<open>onvalue\<close> 1 and its \<open>offvalue\<close> 0. None of them has a command, so nothing else
  runs. The Refresh button's command is \<open>__import_preview_data\<close>.
\<close>

datatype event =
    SetSeparator string
  | SetMissingValues string
  | SetSheet string
  | SetSkiprows string
  | TogglePreview
  | RefreshPreview

fun edit_frame :: "event \<Rightarrow> options_frame \<Rightarrow> options_frame" where
  "edit_frame (SetSeparator s) (CSVOptionsFrame separator_var missing_values_var) =
     CSVOptionsFrame s missing_values_var"
| "edit_frame (SetMissingValues s) (CSVOptionsFrame separator_var missing_values_var) =
     CSVOptionsFrame separator_var s"
| "edit_frame (SetMissingValues s) (ExcelOptionsFrame sheet_names sheet_var skiprows_var missing_values_var) =
     ExcelOptionsFrame sheet_names sheet_var skiprows_var s"
| "edit_frame (SetSheet s) (ExcelOptionsFrame sheet_names sheet_var skiprows_var missing_values_var) =
     ExcelOptionsFrame sheet_names s skiprows_var missing_values_var"
| "edit_frame (SetSkiprows s) (ExcelOptionsFrame sheet_names sheet_var skiprows_var missing_values_var) =
     ExcelOptionsFrame sheet_names sheet_var s missing_values_var"
| "edit_frame ev frame = frame"

definition toggle_preview :: "popup \<Rightarrow> popup" where
  "toggle_preview p = p\<lparr>show_preview := (if show_preview p = 1 then 0 else 1)\<rparr>"

text \<open>
  One event. An exception that leaves a handler is reported by the toolkit's event loop
  and the window goes on from the state the handler left. Every event is allowed in
  every state; the window itself offers fewer (a widget of a frame that is not packed
  cannot be reached).
\<close>

fun handle :: "world \<Rightarrow> event \<Rightarrow> popup \<Rightarrow> popup" where
  "handle w RefreshPreview p = state_after (import_preview_data w p)"
| "handle w TogglePreview p = toggle_preview p"
| "handle w ev p = p\<lparr>import_options_frame := map_option (edit_frame ev) (import_options_frame p)\<rparr>"

text \<open>A run of events, each with the world (the files on disk) it happens in.\<close>

fun run :: "(world \<times> event) list \<Rightarrow> popup \<Rightarrow> popup" where
  "run [] p = p"
| "run ((w, ev) # evs) p = run evs (handle w ev p)"

text \<open>
  The table a refresh in state \<open>p\<close> parses, when it succeeds; and, over a run, the table of
  the most recent refresh that succeeded.
\<close>

definition refresh_table :: "world \<Rightarrow> popup \<Rightarrow> DataFrame option" where
  "refresh_table w p =
     (case filepath p of
        None \<Rightarrow> None
      | Some fp \<Rightarrow>
         (case load_selected w fp (import_options_frame p) of
            Loaded df \<Rightarrow> Some df
          | SkiprowsRejected \<Rightarrow> None
          | Aborted \<Rightarrow> None))"

fun last_parsed :: "(world \<times> event) list \<Rightarrow> popup \<Rightarrow> DataFrame option" where
  "last_parsed [] p = None"
| "last_parsed ((w, ev) # evs) p =
     (case last_parsed evs (handle w ev p) of
        Some df \<Rightarrow> Some df
      | None \<Rightarrow> (if ev = RefreshPreview then refresh_table w p else None))"

section \<open>The caller\<close>

text \<open>
  What \<open>import_data\<close> hands to its caller is a Python value: \<open>None\<close>, a DataFrame or the
  dictionary of \<open>show\<close>. \<open>import_data\<close> of \<open>src/dataimport\<close> returns \<open>popup.show()\<close> as it is.
\<close>

datatype pyval = PyNone | PyDataFrame DataFrame | PyDict show_dict

definition import_data :: "world \<Rightarrow> popup \<Rightarrow> pyval" where
  "import_data w p = PyDict (show_result w p)"

text \<open>
  The older copy \<open>src/DataImport/DataImportPopup.py\<close>, which \<open>main.py\<close> names in its
  \<open>import DataImport\<close>: its \<open>show\<close> returns \<open>self.data_frame\<close>.
\<close>

definition DataImport_show :: "popup \<Rightarrow> pyval" where
  "DataImport_show p = (case data_frame p of None \<Rightarrow> PyNone | Some df \<Rightarrow> PyDataFrame df)"

definition DataImport_import_data :: "popup \<Rightarrow> pyval" where
  "DataImport_import_data p = DataImport_show p"

text \<open>
  Its \<open>__select_file\<close> stores whatever the dialog returned, keeps no \<open>else\<close> branch and
  always goes on to \<open>__import_preview_data\<close>; its \<open>__import_preview_data\<close> has no check
  of the skip-rows entry of its own, so a failing \<open>get_skiprows\<close> is caught with the rest.
\<close>

definition DataImport_load_selected :: "world \<Rightarrow> string \<Rightarrow> options_frame option \<Rightarrow> loaded" where
  "DataImport_load_selected w fp frame =
     (if endswith fp ''.csv'' then
        (case get_separator frame of
           Inl e \<Rightarrow> Aborted
         | Inr sep \<Rightarrow>
            (case get_na_value frame of
               Inl e \<Rightarrow> Aborted
             | Inr na \<Rightarrow>
                (case read_csv w fp sep na of
                   None \<Rightarrow> Aborted
                 | Some df \<Rightarrow> Loaded df)))
      else if endswith fp ''.xlsx'' then
        (case get_sheet_name frame of
           Inl e \<Rightarrow> Aborted
         | Inr sheet \<Rightarrow>
            (case get_skiprows w frame of
               Inl e \<Rightarrow> Aborted
             | Inr n \<Rightarrow>
                (case get_na_value frame of
                   Inl e \<Rightarrow> Aborted
                 | Inr na \<Rightarrow>
                    (case read_excel w fp sheet n na of
                       None \<Rightarrow> Aborted
                     | Some df \<Rightarrow> Loaded df))))
      else if endswith fp ''.sav'' then
        (case read_spss w fp of
           None \<Rightarrow> Aborted
         | Some df \<Rightarrow> Loaded df)
      else Aborted)"

definition DataImport_import_preview_data :: "world \<Rightarrow> popup \<Rightarrow> (exn \<times> popup) + popup" where
  "DataImport_import_preview_data w p =
     (case filepath p of
        None \<Rightarrow> Inl (AttributeError, p)
      | Some fp \<Rightarrow>
         (case DataImport_load_selected w fp (import_options_frame p) of
            Aborted \<Rightarrow> Inr p
          | SkiprowsRejected \<Rightarrow> Inr p
          | Loaded df \<Rightarrow>
             Inr (p\<lparr>preview_tableview :=
                       (if show_preview p = 1
                        then \<lparr>coldata = df_columns df, rowdata = df_values df\<rparr>
                        else \<lparr>coldata = [], rowdata = []\<rparr>),
                     import_btn := Some df\<rparr>)))"

definition DataImport_select_file :: "world \<Rightarrow> string \<Rightarrow> popup \<Rightarrow> (exn \<times> popup) + popup" where
  "DataImport_select_file w selected p =
     (let p1 = forget_options (p\<lparr>filepath := Some selected\<rparr>) in
      if endswith selected ''.csv'' then
        DataImport_import_preview_data w
          (p1\<lparr>import_options_frame := Some new_CSVOptionsFrame, options_packed := True\<rparr>)
      else if endswith selected ''.xlsx'' then
        (case ExcelFile w selected of
           None \<Rightarrow> Inl (ParserError, p1)
         | Some names \<Rightarrow>
            (case new_ExcelOptionsFrame names of
               Inl e \<Rightarrow> Inl (e, p1)
             | Inr frame \<Rightarrow>
                DataImport_import_preview_data w
                  (p1\<lparr>import_options_frame := Some frame, options_packed := True\<rparr>)))
      else if endswith selected ''.sav'' then
        DataImport_import_preview_data w
          (p1\<lparr>import_options_frame := Some SPSSOptionsFrame, options_packed := True\<rparr>)
      else DataImport_import_preview_data w p1)"

text \<open>
  \<open>DataImportApp\<close> of \<open>main.py\<close> and its \<open>open_import_window\<close>, given what \<open>import_data\<close>
  returned. Anything but \<open>None\<close> is read as a DataFrame; a dictionary has no attribute
  \<open>columns\<close>.
\<close>

record app =
  app_data_frame :: "DataFrame option"
  app_tableview :: tableview

definition init_app :: app where
  "init_app = \<lparr>app_data_frame = None, app_tableview = \<lparr>coldata = [], rowdata = []\<rparr>\<rparr>"

fun open_import_window :: "pyval \<Rightarrow> app \<Rightarrow> exn + app" where
  "open_import_window PyNone a = Inr a"
| "open_import_window (PyDataFrame df) a =
     Inr (a\<lparr>app_tableview := \<lparr>coldata = df_columns df, rowdata = df_values df\<rparr>\<rparr>)"
| "open_import_window (PyDict d) a = Inl AttributeError"

section \<open>The file kind of the specification\<close>

text \<open>
  The specification's \<open>fileKind\<close>, in its words: the kind is CSV when the path ends with
  \<open>.csv\<close>, EXCEL when it ends with \<open>.xlsx\<close>, SPSS when it ends with \<open>.sav\<close>, and
  unknown otherwise; "ends with" is \<^const>\<open>suffix\<close>, with no folding of case.
\<close>

datatype fileKind = CSV | EXCEL | SPSS | UNKNOWN

definition spec_fileKind :: "string \<Rightarrow> fileKind" where
  "spec_fileKind path =
     (if suffix ''.csv'' path then CSV
      else if suffix ''.xlsx'' path then EXCEL
      else if suffix ''.sav'' path then SPSS
      else UNKNOWN)"

section \<open>Sample files\<close>

text \<open>
  Concrete inputs for the examples below: a world with a few CSV files and one workbook,
  an \<open>IntVar.get\<close> that reads a decimal numeral with an optional minus sign, and,
  beyond ASCII, the word characters of Latin-1.
\<close>

definition sales :: DataFrame where
  "sales = \<lparr>df_columns = [''a'', ''b''], df_values = [[IntCell 1, IntCell 2]]\<rparr>"

definition book :: DataFrame where
  "book = \<lparr>df_columns = [''x''], df_values = [[StrCell ''u''], [NaCell]]\<rparr>"

fun digits_value :: "nat \<Rightarrow> string \<Rightarrow> nat option" where
  "digits_value n [] = Some n"
| "digits_value n (c # cs) =
     (if c \<in> set ''0123456789''
      then digits_value (10 * n + (of_char c - 48)) cs
      else None)"

fun decimal_int :: "string \<Rightarrow> int option" where
  "decimal_int [] = None"
| "decimal_int (c # cs) =
     (if c = CHR ''-''
      then (if cs = [] then None else map_option (\<lambda>n. - int n) (digits_value 0 cs))
      else map_option int (digits_value 0 (c # cs)))"

text \<open>
  The word characters between U+0080 and U+00FF: the letters (all from U+00C0 on but
  the multiplication and division signs, and the two ordinal indicators and the micro
  sign) and the numeric characters (superscript digits and vulgar fractions).
\<close>

definition latin1_word :: "char \<Rightarrow> bool" where
  "latin1_word c =
     (let n = (of_char c :: nat) in
      n \<in> set [0xAA, 0xB2, 0xB3, 0xB5, 0xB9, 0xBA, 0xBC, 0xBD, 0xBE]
      \<or> (0xC0 \<le> n \<and> n \<noteq> 0xD7 \<and> n \<noteq> 0xF7))"

definition sample_world :: world where
  "sample_world =
     \<lparr>read_csv = (\<lambda>path sep na.
        if path \<in> set [''/tmp/sales_Q1.csv'', ''/tmp/a+b.csv'', ''/home/user.name/data.csv'']
           \<and> sep = '',''
        then Some sales else None),
      read_excel = (\<lambda>path sheet n na.
        if path = ''/tmp/book.xlsx'' \<and> sheet = ''Sheet1'' then Some book else None),
      read_spss = (\<lambda>path. None),
      ExcelFile = (\<lambda>path. if path = ''/tmp/book.xlsx'' then Some [''Sheet1''] else None),
      IntVar_get = decimal_int,
      unicode_word = latin1_word\<rparr>"

text \<open>The same world after the CSV file has been rewritten on disk.\<close>

definition later_world :: world where
  "later_world = sample_world\<lparr>read_csv := (\<lambda>path sep na.
        if path = ''/tmp/sales_Q1.csv'' \<and> sep = '','' then Some book else None)\<rparr>"

text \<open>The same world after the workbook has become unreadable.\<close>

definition broken_world :: world where
  "broken_world = sample_world\<lparr>read_excel := (\<lambda>path sheet n na. None)\<rparr>"

text \<open>The popup after \<open>/tmp/sales_Q1.csv\<close> was selected, and after the workbook was.\<close>

definition csv_popup :: popup where
  "csv_popup =
     \<lparr>filepath = Some ''/tmp/sales_Q1.csv'', data_frame = None, show_preview = 1,
      import_options_frame = Some (CSVOptionsFrame '','' ''Default''), options_packed = True,
      preview_tableview = \<lparr>coldata = [''a'', ''b''], rowdata = [[IntCell 1, IntCell 2]]\<rparr>,
      import_btn = Some sales, destroyed = False, shown_errors = []\<rparr>"

definition xlsx_popup :: "string \<Rightarrow> popup" where
  "xlsx_popup skiprows_text =
     \<lparr>filepath = Some ''/tmp/book.xlsx'', data_frame = None, show_preview = 1,
      import_options_frame =
        Some (ExcelOptionsFrame [''Sheet1''] ''Sheet1'' skiprows_text ''Default''),
      options_packed = True,
      preview_tableview = \<lparr>coldata = [''x''], rowdata = [[StrCell ''u''], [NaCell]]\<rparr>,
      import_btn = Some book, destroyed = False, shown_errors = []\<rparr>"

section \<open>Facts about the strings\<close>

lemmas sample_defs = sample_world_def later_world_def broken_world_def csv_popup_def
  xlsx_popup_def init_popup_def sales_def book_def new_CSVOptionsFrame_def
  separator_options_def

lemma endswith_suffix: "endswith s suf \<longleftrightarrow> suffix suf s"
proof
  assume "endswith s suf"
  then have "s = take (length s - length suf) s @ suf"
    by (metis append_take_drop_id endswith_def)
  then show "suffix suf s" by (metis suffixI)
next
  assume "suffix suf s"
  then obtain zs where "s = zs @ suf" by (auto simp: suffix_def)
  then show "endswith s suf" by (simp add: endswith_def)
qed

lemma csv_not_xlsx: "endswith s ''.csv'' \<Longrightarrow> \<not> endswith s ''.xlsx''"
  by (auto simp: endswith_suffix suffix_def)

lemma xlsx_not_csv: "endswith s ''.xlsx'' \<Longrightarrow> \<not> endswith s ''.csv''"
  using csv_not_xlsx by blast

lemma spec_fileKind_endswith:
  "spec_fileKind path =
     (if endswith path ''.csv'' then CSV
      else if endswith path ''.xlsx'' then EXCEL
      else if endswith path ''.sav'' then SPSS
      else UNKNOWN)"
  by (simp add: spec_fileKind_def endswith_suffix)

lemma name_char_not_dot: "name_char w c \<Longrightarrow> c \<noteq> CHR ''.''"
  by (auto simp: name_char_def split: if_splits)

lemma slash_not_name_char: "\<not> name_char w CHR ''/''"
  by (simp add: name_char_def)

text \<open>A run of class characters that stands right before a dot is matched whole.\<close>

lemma lazy_run_stem:
  "s \<noteq> [] \<Longrightarrow> \<forall>c\<in>set s. name_char w c \<Longrightarrow>
     lazy_run w acc (s @ CHR ''.'' # rest) = Some (acc @ s)"
proof (induction s arbitrary: acc)
  case Nil
  then show ?case by simp
next
  case (Cons c s)
  show ?case
  proof (cases s)
    case Nil
    with Cons.prems show ?thesis by simp
  next
    case (Cons d s')
    with Cons.prems have "name_char w d" by simp
    then have "d \<noteq> CHR ''.''" by (rule name_char_not_dot)
    moreover have "lazy_run w (acc @ [c]) (s @ CHR ''.'' # rest) = Some ((acc @ [c]) @ s)"
      using Cons.IH [of "acc @ [c]"] Cons.prems Cons by simp
    ultimately show ?thesis using Cons.prems Cons by simp
  qed
qed

text \<open>Without a dot ahead, or with a slash before the next dot, there is no match here.\<close>

lemma lazy_run_no_dot: "CHR ''.'' \<notin> set s \<Longrightarrow> lazy_run w acc s = None"
proof (induction s arbitrary: acc)
  case Nil
  then show ?case by simp
next
  case (Cons c s)
  then show ?case by (cases s) auto
qed

lemma lazy_run_dir:
  "CHR ''.'' \<notin> set d \<Longrightarrow> lazy_run w acc (d @ CHR ''/'' # t) = None"
proof (induction d arbitrary: acc)
  case Nil
  then show ?case by (simp add: slash_not_name_char)
next
  case (Cons c d)
  then show ?case by (cases d) auto
qed

lemma re_search_no_dot: "CHR ''.'' \<notin> set s \<Longrightarrow> re_search w s = None"
proof (induction s)
  case Nil
  then show ?case by simp
next
  case (Cons c s)
  then have "lazy_run w [] (c # s) = None" by (intro lazy_run_no_dot) simp
  with Cons show ?case by simp
qed

lemma re_search_dir:
  "CHR ''.'' \<notin> set d \<Longrightarrow> re_search w (d @ CHR ''/'' # t) = re_search w t"
proof (induction d)
  case Nil
  have "lazy_run w [] (CHR ''/'' # t) = None" by (simp add: slash_not_name_char)
  then show ?case by simp
next
  case (Cons c d)
  then have "lazy_run w [] ((c # d) @ CHR ''/'' # t) = None" by (intro lazy_run_dir) simp
  with Cons show ?case by simp
qed

lemma re_search_stem:
  assumes "s \<noteq> []" and "\<forall>c\<in>set s. name_char w c"
  shows "re_search w (s @ CHR ''.'' # rest) = Some s"
proof -
  from assms(1) obtain c s' where s: "s = c # s'" by (cases s) auto
  have "lazy_run w [] (s @ CHR ''.'' # rest) = Some ([] @ s)"
    using assms by (rule lazy_run_stem)
  then show ?thesis by (simp add: s)
qed

text \<open>Whatever the search returns is a run of class characters right before a dot.\<close>

lemma lazy_run_sound:
  "lazy_run w acc s = Some m \<Longrightarrow>
     \<exists>r post. m = acc @ r \<and> s = r @ CHR ''.'' # post \<and> r \<noteq> [] \<and> list_all (name_char w) r"
proof (induction s arbitrary: acc)
  case Nil
  then show ?case by simp
next
  case (Cons c cs)
  from Cons.prems have c: "name_char w c" by (simp split: if_splits)
  show ?case
  proof (cases "lookahead_dot cs")
    case True
    then obtain post where "cs = CHR ''.'' # post" by (cases cs) auto
    moreover from True Cons.prems c have "m = acc @ [c]" by simp
    ultimately show ?thesis using c by auto
  next
    case False
    with Cons.prems c have "lazy_run w (acc @ [c]) cs = Some m" by simp
    from Cons.IH [OF this] obtain r post
      where "m = (acc @ [c]) @ r" "cs = r @ CHR ''.'' # post" "list_all (name_char w) r"
      by blast
    then have "m = acc @ (c # r) \<and> c # cs = (c # r) @ CHR ''.'' # post
        \<and> c # r \<noteq> [] \<and> list_all (name_char w) (c # r)"
      using c by simp
    then show ?thesis by blast
  qed
qed

lemma re_search_sound:
  "re_search w s = Some m \<Longrightarrow>
     \<exists>pre post. s = pre @ m @ CHR ''.'' # post \<and> m \<noteq> [] \<and> list_all (name_char w) m"
proof (induction s)
  case Nil
  then show ?case by simp
next
  case (Cons c cs)
  show ?case
  proof (cases "lazy_run w [] (c # cs)")
    case None
    with Cons.prems have "re_search w cs = Some m" by simp
    from Cons.IH [OF this] obtain pre post
      where "cs = pre @ m @ CHR ''.'' # post" "m \<noteq> []" "list_all (name_char w) m"
      by blast
    then have "c # cs = (c # pre) @ m @ CHR ''.'' # post \<and> m \<noteq> [] \<and> list_all (name_char w) m"
      by simp
    then show ?thesis by blast
  next
    case (Some m')
    with Cons.prems have "m' = m" by simp
    with Some lazy_run_sound [of w "[]" "c # cs" m] obtain r post
      where "m = r" "c # cs = r @ CHR ''.'' # post" "r \<noteq> []" "list_all (name_char w) r"
      by auto
    then have "c # cs = [] @ m @ CHR ''.'' # post \<and> m \<noteq> [] \<and> list_all (name_char w) m"
      by simp
    then show ?thesis by blast
  qed
qed

section \<open>Facts about a refresh\<close>

lemma import_preview_data_frame:
  "import_options_frame (state_after (import_preview_data w p)) = import_options_frame p
   \<and> options_packed (state_after (import_preview_data w p)) = options_packed p
   \<and> filepath (state_after (import_preview_data w p)) = filepath p"
  by (simp add: import_preview_data_def split: option.splits loaded.splits)

lemma import_preview_data_returns:
  "filepath p \<noteq> None \<Longrightarrow> raised (import_preview_data w p) = None"
  by (auto simp: import_preview_data_def split: option.splits loaded.splits)

lemma import_preview_data_errors_non_xlsx:
  "filepath p = Some fp \<Longrightarrow> \<not> endswith fp ''.xlsx'' \<Longrightarrow>
     shown_errors (state_after (import_preview_data w p)) = shown_errors p"
  by (auto simp: import_preview_data_def load_selected_def
      split: option.splits loaded.splits sum.splits)

text \<open>An entry that reads as an integer, of either sign, brings up no message.\<close>

lemma refresh_readable_skiprows:
  assumes "filepath p = Some fp"
    and "import_options_frame p
           = Some (ExcelOptionsFrame sheet_names sheet_var skiprows_var missing_values_var)"
    and "IntVar_get w skiprows_var = Some n"
  shows "shown_errors (state_after (import_preview_data w p)) = shown_errors p"
  using assms
  by (auto simp: import_preview_data_def load_selected_def
      split: option.splits loaded.splits sum.splits)

lemma import_btn_refresh:
  "import_btn (state_after (import_preview_data w p))
     = (case refresh_table w p of Some df \<Rightarrow> Some df | None \<Rightarrow> import_btn p)"
  by (simp add: import_preview_data_def refresh_table_def split: option.splits loaded.splits)

lemma import_btn_handle:
  "import_btn (handle w ev p)
     = (case (if ev = RefreshPreview then refresh_table w p else None) of
          Some df \<Rightarrow> Some df
        | None \<Rightarrow> import_btn p)"
  by (cases ev) (simp_all add: import_btn_refresh toggle_preview_def)

lemma import_btn_run:
  "import_btn (run evs p)
     = (case last_parsed evs p of Some df \<Rightarrow> Some df | None \<Rightarrow> import_btn p)"
proof (induction evs arbitrary: p)
  case Nil
  then show ?case by simp
next
  case (Cons a evs)
  obtain w ev where a: "a = (w, ev)" by (cases a)
  show ?case
    unfolding a run.simps last_parsed.simps Cons.IH import_btn_handle
    by (simp split: option.splits)
qed

text \<open>
  With the check box switched off and on again around refreshes of an unchanged file,
  the preview is emptied and then rebuilt as it was.
\<close>

lemma toggle_refresh_restores:
  assumes "filepath p = Some fp"
    and "load_selected w fp (import_options_frame p) = Loaded df"
    and "show_preview p = 1"
    and "preview_tableview p = \<lparr>coldata = df_columns df, rowdata = df_values df\<rparr>"
  shows "preview_tableview (run [(w, TogglePreview), (w, RefreshPreview)] p)
           = \<lparr>coldata = [], rowdata = []\<rparr>
       \<and> preview_tableview (run [(w, TogglePreview), (w, RefreshPreview),
                                  (w, TogglePreview), (w, RefreshPreview)] p)
           = preview_tableview p
       \<and> import_btn (run [(w, TogglePreview), (w, RefreshPreview),
                           (w, TogglePreview), (w, RefreshPreview)] p) = Some df"
  using assms by (simp add: toggle_preview_def import_preview_data_def)

text \<open>
  The older copy in \<open>src/DataImport\<close> on a cancelled dialog: the empty path is stored and
  the option frame is taken out of the layout.
\<close>

lemma DataImport_select_file_cancelled:
  "DataImport_select_file w [] p = Inr (forget_options (p\<lparr>filepath := Some []\<rparr>))"
  by (simp add: DataImport_select_file_def DataImport_import_preview_data_def
      DataImport_load_selected_def endswith_def forget_options_def)

lemma sample_selections:
  "select_file sample_world ''/tmp/sales_Q1.csv'' init_popup = Inr csv_popup"
  "select_file sample_world ''/tmp/book.xlsx'' init_popup = Inr (xlsx_popup ''0'')"
  by (simp_all add: select_file_def import_preview_data_def load_selected_def
      forget_options_def endswith_def sample_defs)

section \<open>Facts about the two copies\<close>

lemma csv_not_sav: "endswith s ''.csv'' \<Longrightarrow> \<not> endswith s ''.sav''"
  by (auto simp: endswith_suffix suffix_def)

lemma xlsx_not_sav: "endswith s ''.xlsx'' \<Longrightarrow> \<not> endswith s ''.sav''"
  by (auto simp: endswith_suffix suffix_def)

text \<open>The same facts for the older copy, which shows no message at all.\<close>

lemma DataImport_import_preview_data_frame:
  "import_options_frame (state_after (DataImport_import_preview_data w p)) = import_options_frame p
   \<and> options_packed (state_after (DataImport_import_preview_data w p)) = options_packed p
   \<and> filepath (state_after (DataImport_import_preview_data w p)) = filepath p
   \<and> shown_errors (state_after (DataImport_import_preview_data w p)) = shown_errors p"
  by (simp add: DataImport_import_preview_data_def split: option.splits loaded.splits)

lemma DataImport_import_preview_data_returns:
  "filepath p \<noteq> None \<Longrightarrow> raised (DataImport_import_preview_data w p) = None"
  by (auto simp: DataImport_import_preview_data_def split: option.splits loaded.splits)

lemma import_btn_loaded:
  "filepath p = Some fp \<Longrightarrow>
     import_btn (state_after (import_preview_data w p))
       = (case load_selected w fp (import_options_frame p) of
            Loaded df \<Rightarrow> Some df
          | SkiprowsRejected \<Rightarrow> import_btn p
          | Aborted \<Rightarrow> import_btn p)"
  by (simp add: import_preview_data_def split: loaded.splits)

lemma DataImport_import_btn_loaded:
  "filepath p = Some fp \<Longrightarrow>
     import_btn (state_after (DataImport_import_preview_data w p))
       = (case DataImport_load_selected w fp (import_options_frame p) of
            Loaded df \<Rightarrow> Some df
          | SkiprowsRejected \<Rightarrow> import_btn p
          | Aborted \<Rightarrow> import_btn p)"
  by (simp add: DataImport_import_preview_data_def split: loaded.splits)

text \<open>Which reader each suffix leads to, in both copies.\<close>

lemma load_selected_csv:
  "endswith fp ''.csv'' \<Longrightarrow>
     load_selected w fp frame
       = (case get_separator frame of
            Inl e \<Rightarrow> Aborted
          | Inr sep \<Rightarrow>
             (case get_na_value frame of
                Inl e \<Rightarrow> Aborted
              | Inr na \<Rightarrow>
                 (case read_csv w fp sep na of None \<Rightarrow> Aborted | Some df \<Rightarrow> Loaded df)))"
  by (simp add: load_selected_def)

lemma load_selected_xlsx:
  "endswith fp ''.xlsx'' \<Longrightarrow>
     load_selected w fp frame
       = (case get_skiprows w frame of
            Inl e \<Rightarrow> SkiprowsRejected
          | Inr n \<Rightarrow>
             (case get_sheet_name frame of
                Inl e \<Rightarrow> Aborted
              | Inr sheet \<Rightarrow>
                 (case get_na_value frame of
                    Inl e \<Rightarrow> Aborted
                  | Inr na \<Rightarrow>
                     (case read_excel w fp sheet n na of
                        None \<Rightarrow> Aborted
                      | Some df \<Rightarrow> Loaded df))))"
  using xlsx_not_csv [of fp] by (simp add: load_selected_def split: sum.splits)

lemma load_selected_sav:
  "endswith fp ''.sav'' \<Longrightarrow>
     load_selected w fp frame
       = (case read_spss w fp of None \<Rightarrow> Aborted | Some df \<Rightarrow> Loaded df)"
  using csv_not_sav [of fp] xlsx_not_sav [of fp] by (auto simp: load_selected_def)

lemma DataImport_load_selected_csv:
  "endswith fp ''.csv'' \<Longrightarrow>
     DataImport_load_selected w fp frame
       = (case get_separator frame of
            Inl e \<Rightarrow> Aborted
          | Inr sep \<Rightarrow>
             (case get_na_value frame of
                Inl e \<Rightarrow> Aborted
              | Inr na \<Rightarrow>
                 (case read_csv w fp sep na of None \<Rightarrow> Aborted | Some df \<Rightarrow> Loaded df)))"
  by (simp add: DataImport_load_selected_def)

lemma DataImport_load_selected_xlsx:
  "endswith fp ''.xlsx'' \<Longrightarrow>
     DataImport_load_selected w fp frame
       = (case get_sheet_name frame of
            Inl e \<Rightarrow> Aborted
          | Inr sheet \<Rightarrow>
             (case get_skiprows w frame of
                Inl e \<Rightarrow> Aborted
              | Inr n \<Rightarrow>
                 (case get_na_value frame of
                    Inl e \<Rightarrow> Aborted
                  | Inr na \<Rightarrow>
                     (case read_excel w fp sheet n na of
                        None \<Rightarrow> Aborted
                      | Some df \<Rightarrow> Loaded df))))"
  using xlsx_not_csv [of fp] by (simp add: DataImport_load_selected_def)

lemma DataImport_load_selected_sav:
  "endswith fp ''.sav'' \<Longrightarrow>
     DataImport_load_selected w fp frame
       = (case read_spss w fp of None \<Rightarrow> Aborted | Some df \<Rightarrow> Loaded df)"
  using csv_not_sav [of fp] xlsx_not_sav [of fp] by (auto simp: DataImport_load_selected_def)

text \<open>
  The older copy on a path with none of the three suffixes: the path is stored, the
  option frame is taken out of the layout, and nothing is shown or read.
\<close>

lemma DataImport_select_file_unsupported:
  assumes "\<not> endswith selected ''.csv''"
    and "\<not> endswith selected ''.xlsx''"
    and "\<not> endswith selected ''.sav''"
  shows "DataImport_select_file w selected p = Inr (forget_options (p\<lparr>filepath := Some selected\<rparr>))"
  using assms
  by (simp add: DataImport_select_file_def DataImport_import_preview_data_def
      DataImport_load_selected_def forget_options_def)

lemmas select_simps = select_file_def DataImport_select_file_def Let_def forget_options_def
  new_CSVOptionsFrame_def import_preview_data_frame import_preview_data_returns
  DataImport_import_preview_data_frame DataImport_import_preview_data_returns
  import_btn_loaded DataImport_import_btn_loaded

text \<open>
  The newer copy on a cancelled dialog: it returns at once, with the popup as it was.
\<close>

lemma select_file_cancelled: "select_file w [] p = Inr p"
  by (simp add: select_file_def)

section \<open>Facts about the returned name\<close>

text \<open>
  Where the pattern does return the base name's text before the dot: the directory
  part has no dot and the stem is a non-empty run of class characters. A path
  without a dot, and a popup in which no file was selected, give no name.
\<close>

lemma show_name_clean_stem:
  "(filepath p = Some (dir @ CHR ''/'' # stem @ CHR ''.'' # ext) \<and> CHR ''.'' \<notin> set dir
      \<and> stem \<noteq> [] \<and> (\<forall>c\<in>set stem. name_char w c)
     \<longrightarrow> dict_data_name (show_result w p) = Some stem)
   \<and> (filepath q = Some fp \<and> CHR ''.'' \<notin> set fp \<longrightarrow> dict_data_name (show_result w q) = None)
   \<and> (filepath q' = None \<longrightarrow> dict_data_name (show_result w q') = None)"
  by (simp add: show_result_def re_search_dir re_search_stem re_search_no_dot)

text \<open>A stem with a word character beyond ASCII is returned whole.\<close>

lemma show_name_unicode:
  "re_search sample_world (''/tmp/caf'' @ [CHR 0xE9] @ ''.csv'') = Some (''caf'' @ [CHR 0xE9])"
  by (simp add: name_char_def sample_world_def latin1_word_def)

section \<open>Selecting a file\<close>

text \<open>
  A file with an unsupported extension, chosen while \<open>/tmp/sales_Q1.csv\<close> is loaded: the
  stored path is replaced and the option frame is taken out of the layout.
\<close>

theorem select_file_unsupported_counterexample:
  "\<not> endswith ''/tmp/notes.txt'' ''.csv'' \<and> \<not> endswith ''/tmp/notes.txt'' ''.xlsx''
   \<and> \<not> endswith ''/tmp/notes.txt'' ''.sav''
   \<and> filepath csv_popup = Some ''/tmp/sales_Q1.csv''
   \<and> filepath (state_after (select_file sample_world ''/tmp/notes.txt'' csv_popup))
       = Some ''/tmp/notes.txt''
   \<and> options_packed csv_popup
   \<and> \<not> options_packed (state_after (select_file sample_world ''/tmp/notes.txt'' csv_popup))"
  by (simp add: select_file_def forget_options_def endswith_def sample_defs)

text \<open>
  C1, as \<open>src/dataimport\<close> has it: when the chosen path is not empty and ends with none
  of \<open>.csv\<close>, \<open>.xlsx\<close>, \<open>.sav\<close>, its \<open>__select_file\<close> returns normally, shows the
  unsupported-type message, and leaves the preview table, the table bound to the Import
  button, the returned data, the preview switch and the option frame object as they
  were; the stored path becomes the chosen path, and an existing option frame is no
  longer packed.
\<close>

theorem select_file_unsupported:
  assumes "current_filepath \<noteq> []"
    and "\<not> endswith current_filepath ''.csv''"
    and "\<not> endswith current_filepath ''.xlsx''"
    and "\<not> endswith current_filepath ''.sav''"
  shows "\<exists>q. select_file w current_filepath p = Inr q
           \<and> shown_errors q = shown_errors p
                @ [''Selected file must be one of the following file types: csv, xlsx, .sav.'']
           \<and> preview_tableview q = preview_tableview p
           \<and> import_btn q = import_btn p
           \<and> data_frame q = data_frame p
           \<and> destroyed q = destroyed p
           \<and> show_preview q = show_preview p
           \<and> import_options_frame q = import_options_frame p
           \<and> filepath q = Some current_filepath
           \<and> options_packed q = (options_packed p \<and> import_options_frame p = None)"
  using assms by (simp add: select_file_def forget_options_def unsupported_msg_def Let_def)

theorem select_file_unsupported_witness:
  "''/tmp/notes.txt'' \<noteq> [] \<and> \<not> endswith ''/tmp/notes.txt'' ''.csv''
   \<and> \<not> endswith ''/tmp/notes.txt'' ''.xlsx'' \<and> \<not> endswith ''/tmp/notes.txt'' ''.sav''
   \<and> (\<exists>q. select_file sample_world ''/tmp/notes.txt'' csv_popup = Inr q
          \<and> shown_errors q
              = [''Selected file must be one of the following file types: csv, xlsx, .sav.'']
          \<and> preview_tableview q = preview_tableview csv_popup
          \<and> import_btn q = Some sales
          \<and> filepath q = Some ''/tmp/notes.txt''
          \<and> \<not> options_packed q)"
proof -
  have h: "''/tmp/notes.txt'' \<noteq> []" "\<not> endswith ''/tmp/notes.txt'' ''.csv''"
    "\<not> endswith ''/tmp/notes.txt'' ''.xlsx''" "\<not> endswith ''/tmp/notes.txt'' ''.sav''"
    by (simp_all add: endswith_def)
  from select_file_unsupported [OF h, of sample_world csv_popup]
  obtain q where "select_file sample_world ''/tmp/notes.txt'' csv_popup = Inr q"
    and "shown_errors q = shown_errors csv_popup
                @ [''Selected file must be one of the following file types: csv, xlsx, .sav.'']"
    and "preview_tableview q = preview_tableview csv_popup"
    and "import_btn q = import_btn csv_popup"
    and "filepath q = Some ''/tmp/notes.txt''"
    and "options_packed q = (options_packed csv_popup \<and> import_options_frame csv_popup = None)"
    by blast
  then show ?thesis using h by (simp add: csv_popup_def)
qed

text \<open>
  C2 at a file named \<open>/tmp/bad.xlsx\<close> that is no workbook, chosen while
  \<open>/tmp/sales_Q1.csv\<close> is loaded: the exception of \<open>pd.ExcelFile\<close> leaves \<open>__select_file\<close>,
  with the path already replaced and the option frame already taken out of the layout.
\<close>

theorem select_file_bad_workbook_raises:
  "ExcelFile sample_world ''/tmp/bad.xlsx'' = None
   \<and> select_file sample_world ''/tmp/bad.xlsx'' csv_popup =
       Inl (ParserError, csv_popup\<lparr>filepath := Some ''/tmp/bad.xlsx'', options_packed := False\<rparr>)"
  by (simp add: select_file_def forget_options_def endswith_def sample_defs)

text \<open>
  C7 at a cancelled dialog while \<open>/tmp/sales_Q1.csv\<close> is loaded: \<open>__select_file\<close> of
  \<open>src/DataImport\<close> stores the empty string as the path and takes the option frame out
  of the layout, where \<open>__select_file\<close> of \<open>src/dataimport\<close> leaves the popup as it was.
\<close>

theorem DataImport_select_file_cancel_changes_state:
  "DataImport_select_file sample_world [] csv_popup
     = Inr (csv_popup\<lparr>filepath := Some [], options_packed := False\<rparr>)
   \<and> filepath csv_popup = Some ''/tmp/sales_Q1.csv''
   \<and> options_packed csv_popup
   \<and> select_file sample_world [] csv_popup = Inr csv_popup"
  by (simp add: DataImport_select_file_def DataImport_import_preview_data_def
      DataImport_load_selected_def select_file_def forget_options_def endswith_def sample_defs)

text \<open>
  C10: for a chosen path that is not empty, what both copies of \<open>__select_file\<close> and
  the chain of \<open>__import_preview_data\<close> do is fixed by the specification's file kind, a
  suffix test with no folding of case. CSV: a fresh CSV frame, and the table comes
  from \<open>read_csv\<close>. EXCEL: a fresh Excel frame on the workbook's sheet names, or the
  exception of enumerating them, and the table comes from \<open>read_excel\<close>. SPSS: a fresh
  SPSS frame, and the table comes from \<open>read_spss\<close>. Unknown: no frame is built and no
  reader is called; \<open>src/dataimport\<close> shows the unsupported-type message.
\<close>

theorem select_file_kind_by_suffix:
  assumes "path \<noteq> []"
  shows "(case spec_fileKind path of
            CSV \<Rightarrow>
              raised (select_file w path p) = None
              \<and> import_options_frame (state_after (select_file w path p))
                  = Some (CSVOptionsFrame '','' ''Default'')
              \<and> shown_errors (state_after (select_file w path p)) = shown_errors p
              \<and> import_btn (state_after (select_file w path p))
                  = (case read_csv w path '','' None of
                       None \<Rightarrow> import_btn p
                     | Some df \<Rightarrow> Some df)
              \<and> load_selected w path frame
                  = (case get_separator frame of
                       Inl e \<Rightarrow> Aborted
                     | Inr sep \<Rightarrow>
                        (case get_na_value frame of
                           Inl e \<Rightarrow> Aborted
                         | Inr na \<Rightarrow>
                            (case read_csv w path sep na of
                               None \<Rightarrow> Aborted
                             | Some df \<Rightarrow> Loaded df)))
              \<and> raised (DataImport_select_file w path p) = None
              \<and> import_options_frame (state_after (DataImport_select_file w path p))
                  = Some (CSVOptionsFrame '','' ''Default'')
              \<and> import_btn (state_after (DataImport_select_file w path p))
                  = (case read_csv w path '','' None of
                       None \<Rightarrow> import_btn p
                     | Some df \<Rightarrow> Some df)
          | EXCEL \<Rightarrow>
              (case ExcelFile w path of
                 Some (s # ss) \<Rightarrow>
                   raised (select_file w path p) = None
                   \<and> import_options_frame (state_after (select_file w path p))
                       = Some (ExcelOptionsFrame (s # ss) s ''0'' ''Default'')
                   \<and> import_btn (state_after (select_file w path p))
                       = (case IntVar_get w ''0'' of
                            None \<Rightarrow> import_btn p
                          | Some n \<Rightarrow>
                             (case read_excel w path s n None of
                                None \<Rightarrow> import_btn p
                              | Some df \<Rightarrow> Some df))
                   \<and> raised (DataImport_select_file w path p) = None
                   \<and> import_options_frame (state_after (DataImport_select_file w path p))
                       = Some (ExcelOptionsFrame (s # ss) s ''0'' ''Default'')
                   \<and> import_btn (state_after (DataImport_select_file w path p))
                       = (case IntVar_get w ''0'' of
                            None \<Rightarrow> import_btn p
                          | Some n \<Rightarrow>
                             (case read_excel w path s n None of
                                None \<Rightarrow> import_btn p
                              | Some df \<Rightarrow> Some df))
               | Some [] \<Rightarrow>
                   raised (select_file w path p) = Some IndexError
                   \<and> raised (DataImport_select_file w path p) = Some IndexError
               | None \<Rightarrow>
                   raised (select_file w path p) = Some ParserError
                   \<and> raised (DataImport_select_file w path p) = Some ParserError)
              \<and> load_selected w path frame
                  = (case get_skiprows w frame of
                       Inl e \<Rightarrow> SkiprowsRejected
                     | Inr n \<Rightarrow>
                        (case get_sheet_name frame of
                           Inl e \<Rightarrow> Aborted
                         | Inr sheet \<Rightarrow>
                            (case get_na_value frame of
                               Inl e \<Rightarrow> Aborted
                             | Inr na \<Rightarrow>
                                (case read_excel w path sheet n na of
                                   None \<Rightarrow> Aborted
                                 | Some df \<Rightarrow> Loaded df))))
          | SPSS \<Rightarrow>
              raised (select_file w path p) = None
              \<and> import_options_frame (state_after (select_file w path p)) = Some SPSSOptionsFrame
              \<and> shown_errors (state_after (select_file w path p)) = shown_errors p
              \<and> import_btn (state_after (select_file w path p))
                  = (case read_spss w path of None \<Rightarrow> import_btn p | Some df \<Rightarrow> Some df)
              \<and> load_selected w path frame
                  = (case read_spss w path of None \<Rightarrow> Aborted | Some df \<Rightarrow> Loaded df)
              \<and> raised (DataImport_select_file w path p) = None
              \<and> import_options_frame (state_after (DataImport_select_file w path p))
                  = Some SPSSOptionsFrame
              \<and> import_btn (state_after (DataImport_select_file w path p))
                  = (case read_spss w path of None \<Rightarrow> import_btn p | Some df \<Rightarrow> Some df)
          | UNKNOWN \<Rightarrow>
              raised (select_file w path p) = None
              \<and> import_options_frame (state_after (select_file w path p)) = import_options_frame p
              \<and> shown_errors (state_after (select_file w path p))
                  = shown_errors p @ [unsupported_msg]
              \<and> import_btn (state_after (select_file w path p)) = import_btn p
              \<and> load_selected w path frame = Aborted
              \<and> raised (DataImport_select_file w path p) = None
              \<and> import_options_frame (state_after (DataImport_select_file w path p))
                  = import_options_frame p
              \<and> import_btn (state_after (DataImport_select_file w path p)) = import_btn p)"
proof (cases "spec_fileKind path")
  case CSV
  then have e: "endswith path ''.csv''"
    by (simp add: spec_fileKind_endswith split: if_splits)
  then have x: "\<not> endswith path ''.xlsx''" by (rule csv_not_xlsx)
  have l: "load_selected w path frame
                  = (case get_separator frame of
                       Inl e \<Rightarrow> Aborted
                     | Inr sep \<Rightarrow>
                        (case get_na_value frame of
                           Inl e \<Rightarrow> Aborted
                         | Inr na \<Rightarrow>
                            (case read_csv w path sep na of
                               None \<Rightarrow> Aborted
                             | Some df \<Rightarrow> Loaded df)))"
    using e by (rule load_selected_csv)
  have a: "raised (select_file w path p) = None
      \<and> import_options_frame (state_after (select_file w path p))
                  = Some (CSVOptionsFrame '','' ''Default'')
      \<and> shown_errors (state_after (select_file w path p)) = shown_errors p
      \<and> import_btn (state_after (select_file w path p))
                  = (case read_csv w path '','' None of
                       None \<Rightarrow> import_btn p
                     | Some df \<Rightarrow> Some df)"
    using e x assms
    by (simp add: select_simps import_preview_data_errors_non_xlsx load_selected_csv
        separator_options_def split: option.splits)
  have b: "raised (DataImport_select_file w path p) = None
      \<and> import_options_frame (state_after (DataImport_select_file w path p))
                  = Some (CSVOptionsFrame '','' ''Default'')
      \<and> import_btn (state_after (DataImport_select_file w path p))
                  = (case read_csv w path '','' None of
                       None \<Rightarrow> import_btn p
                     | Some df \<Rightarrow> Some df)"
    using e x assms
    by (simp add: select_simps DataImport_load_selected_csv
        separator_options_def split: option.splits)
  from CSV l a b show ?thesis by simp
next
  case EXCEL
  then have e: "endswith path ''.xlsx''" "\<not> endswith path ''.csv''"
    by (simp_all add: spec_fileKind_endswith split: if_splits)
  have l: "load_selected w path frame
                  = (case get_skiprows w frame of
                       Inl e \<Rightarrow> SkiprowsRejected
                     | Inr n \<Rightarrow>
                        (case get_sheet_name frame of
                           Inl e \<Rightarrow> Aborted
                         | Inr sheet \<Rightarrow>
                            (case get_na_value frame of
                               Inl e \<Rightarrow> Aborted
                             | Inr na \<Rightarrow>
                                (case read_excel w path sheet n na of
                                   None \<Rightarrow> Aborted
                                 | Some df \<Rightarrow> Loaded df))))"
    using e(1) by (rule load_selected_xlsx)
  have a: "(case ExcelFile w path of
                 Some (s # ss) \<Rightarrow>
                   raised (select_file w path p) = None
                   \<and> import_options_frame (state_after (select_file w path p))
                       = Some (ExcelOptionsFrame (s # ss) s ''0'' ''Default'')
                   \<and> import_btn (state_after (select_file w path p))
                       = (case IntVar_get w ''0'' of
                            None \<Rightarrow> import_btn p
                          | Some n \<Rightarrow>
                             (case read_excel w path s n None of
                                None \<Rightarrow> import_btn p
                              | Some df \<Rightarrow> Some df))
                   \<and> raised (DataImport_select_file w path p) = None
                   \<and> import_options_frame (state_after (DataImport_select_file w path p))
                       = Some (ExcelOptionsFrame (s # ss) s ''0'' ''Default'')
                   \<and> import_btn (state_after (DataImport_select_file w path p))
                       = (case IntVar_get w ''0'' of
                            None \<Rightarrow> import_btn p
                          | Some n \<Rightarrow>
                             (case read_excel w path s n None of
                                None \<Rightarrow> import_btn p
                              | Some df \<Rightarrow> Some df))
               | Some [] \<Rightarrow>
                   raised (select_file w path p) = Some IndexError
                   \<and> raised (DataImport_select_file w path p) = Some IndexError
               | None \<Rightarrow>
                   raised (select_file w path p) = Some ParserError
                   \<and> raised (DataImport_select_file w path p) = Some ParserError)"
    using e assms
    by (simp add: select_simps load_selected_xlsx DataImport_load_selected_xlsx
        split: option.splits list.splits)
  from EXCEL l a show ?thesis by simp
next
  case SPSS
  then have e: "endswith path ''.sav''" "\<not> endswith path ''.csv''" "\<not> endswith path ''.xlsx''"
    by (simp_all add: spec_fileKind_endswith split: if_splits)
  with SPSS assms show ?thesis
    by (simp add: select_simps import_preview_data_errors_non_xlsx load_selected_sav
        DataImport_load_selected_sav split: option.splits)
next
  case UNKNOWN
  then have e: "\<not> endswith path ''.sav''" "\<not> endswith path ''.csv''" "\<not> endswith path ''.xlsx''"
    by (simp_all add: spec_fileKind_endswith split: if_splits)
  have "load_selected w path frame = Aborted"
    using e by (simp add: load_selected_def)
  moreover have "DataImport_select_file w path p
      = Inr (forget_options (p\<lparr>filepath := Some path\<rparr>))"
    using e by (simp add: DataImport_select_file_unsupported)
  ultimately show ?thesis using UNKNOWN e assms
    by (simp add: select_file_def Let_def forget_options_def)
qed

theorem select_file_kind_by_suffix_witness:
  "''/tmp/data.CSV'' \<noteq> [] \<and> spec_fileKind ''/tmp/data.CSV'' = UNKNOWN
   \<and> shown_errors (state_after (select_file sample_world ''/tmp/data.CSV'' init_popup))
       = [unsupported_msg]
   \<and> ''/tmp/archive.tar.csv'' \<noteq> [] \<and> spec_fileKind ''/tmp/archive.tar.csv'' = CSV
   \<and> import_options_frame
        (state_after (select_file sample_world ''/tmp/archive.tar.csv'' init_popup))
       = Some (CSVOptionsFrame '','' ''Default'')
   \<and> ''/tmp/sales_Q1.csv'' \<noteq> [] \<and> spec_fileKind ''/tmp/sales_Q1.csv'' = CSV
   \<and> read_csv sample_world ''/tmp/sales_Q1.csv'' '','' None = Some sales
   \<and> read_spss sample_world ''/tmp/sales_Q1.csv'' = None
   \<and> import_btn (state_after (select_file sample_world ''/tmp/sales_Q1.csv'' init_popup))
       = Some sales"
proof -
  have k: "spec_fileKind ''/tmp/data.CSV'' = UNKNOWN" "spec_fileKind ''/tmp/archive.tar.csv'' = CSV"
    "spec_fileKind ''/tmp/sales_Q1.csv'' = CSV"
    by (simp_all add: spec_fileKind_endswith endswith_def)
  have n: "''/tmp/data.CSV'' \<noteq> []" "''/tmp/archive.tar.csv'' \<noteq> []" "''/tmp/sales_Q1.csv'' \<noteq> []"
    by simp_all
  have r: "read_csv sample_world ''/tmp/sales_Q1.csv'' '','' None = Some sales"
    "read_spss sample_world ''/tmp/sales_Q1.csv'' = None"
    by (simp_all add: sample_world_def)
  from select_file_kind_by_suffix [OF n(1), of sample_world init_popup]
    select_file_kind_by_suffix [OF n(2), of sample_world init_popup]
    select_file_kind_by_suffix [OF n(3), of sample_world init_popup] k r
  show ?thesis by (simp add: init_popup_def)
qed

section \<open>Refreshing the preview\<close>

text \<open>
  A skip-rows entry of \<open>-3\<close> on a loaded workbook: \<open>IntVar.get\<close> reads it as the integer
  \<open>-3\<close>, the handler returns normally and no message is shown.
\<close>

theorem refresh_negative_skiprows_counterexample:
  "IntVar_get sample_world ''-3'' = Some (- 3)
   \<and> raised (import_preview_data sample_world (xlsx_popup ''-3'')) = None
   \<and> shown_errors (state_after (import_preview_data sample_world (xlsx_popup ''-3''))) = []"
  by (simp add: import_preview_data_def load_selected_def endswith_def sample_defs)

text \<open>
  C3, as the code has it: on a path ending with \<open>.xlsx\<close> with an Excel frame whose
  skip-rows entry \<open>IntVar.get\<close> cannot read, \<open>__import_preview_data\<close> returns normally,
  shows "Skip rows must be a number." and changes nothing else: the preview table and
  the Import button stay as they were.
\<close>

theorem refresh_unreadable_skiprows:
  assumes "filepath p = Some fp"
    and "endswith fp ''.xlsx''"
    and "import_options_frame p
           = Some (ExcelOptionsFrame sheet_names sheet_var skiprows_var missing_values_var)"
    and "IntVar_get w skiprows_var = None"
  shows "import_preview_data w p
           = Inr (p\<lparr>shown_errors := shown_errors p @ [''Skip rows must be a number.'']\<rparr>)"
  using assms xlsx_not_csv [of fp]
  by (simp add: import_preview_data_def load_selected_def skiprows_msg_def)

theorem refresh_unreadable_skiprows_witness:
  "filepath (xlsx_popup ''abc'') = Some ''/tmp/book.xlsx''
   \<and> endswith ''/tmp/book.xlsx'' ''.xlsx''
   \<and> import_options_frame (xlsx_popup ''abc'')
        = Some (ExcelOptionsFrame [''Sheet1''] ''Sheet1'' ''abc'' ''Default'')
   \<and> IntVar_get sample_world ''abc'' = None
   \<and> import_preview_data sample_world (xlsx_popup ''abc'')
        = Inr ((xlsx_popup ''abc'')\<lparr>shown_errors := [''Skip rows must be a number.'']\<rparr>)"
proof -
  have h: "filepath (xlsx_popup ''abc'') = Some ''/tmp/book.xlsx''"
    "endswith ''/tmp/book.xlsx'' ''.xlsx''"
    "import_options_frame (xlsx_popup ''abc'')
        = Some (ExcelOptionsFrame [''Sheet1''] ''Sheet1'' ''abc'' ''Default'')"
    "IntVar_get sample_world ''abc'' = None"
    by (simp_all add: endswith_def sample_defs)
  from refresh_unreadable_skiprows [OF h] show ?thesis
    using h by (simp add: xlsx_popup_def)
qed

text \<open>
  C6: when the reader that the path's suffix selects raises on the call made with the
  options the frame holds (and, for a workbook, the skip-rows entry was readable),
  \<open>__import_preview_data\<close> returns normally with the popup exactly as it was: no
  message, the same preview table, the same Import button.
\<close>

theorem refresh_parser_failure_silent:
  "(filepath p1 = Some fp1 \<and> endswith fp1 ''.csv''
      \<and> get_separator (import_options_frame p1) = Inr sep
      \<and> get_na_value (import_options_frame p1) = Inr na1
      \<and> read_csv w1 fp1 sep na1 = None
     \<longrightarrow> import_preview_data w1 p1 = Inr p1)
   \<and> (filepath p2 = Some fp2 \<and> endswith fp2 ''.xlsx''
      \<and> get_skiprows w2 (import_options_frame p2) = Inr n
      \<and> get_sheet_name (import_options_frame p2) = Inr sheet
      \<and> get_na_value (import_options_frame p2) = Inr na2
      \<and> read_excel w2 fp2 sheet n na2 = None
     \<longrightarrow> import_preview_data w2 p2 = Inr p2)
   \<and> (filepath p3 = Some fp3 \<and> endswith fp3 ''.sav'' \<and> read_spss w3 fp3 = None
     \<longrightarrow> import_preview_data w3 p3 = Inr p3)"
  by (simp add: import_preview_data_def load_selected_csv load_selected_xlsx load_selected_sav)

theorem refresh_parser_failure_silent_witness:
  "filepath (csv_popup\<lparr>import_options_frame := Some (CSVOptionsFrame '';'' ''-999'')\<rparr>)
     = Some ''/tmp/sales_Q1.csv''
   \<and> endswith ''/tmp/sales_Q1.csv'' ''.csv''
   \<and> read_csv sample_world ''/tmp/sales_Q1.csv'' '';'' (Some ''-999'') = None
   \<and> import_preview_data sample_world
        (csv_popup\<lparr>import_options_frame := Some (CSVOptionsFrame '';'' ''-999'')\<rparr>)
       = Inr (csv_popup\<lparr>import_options_frame := Some (CSVOptionsFrame '';'' ''-999'')\<rparr>)
   \<and> filepath (xlsx_popup ''2'') = Some ''/tmp/book.xlsx''
   \<and> endswith ''/tmp/book.xlsx'' ''.xlsx''
   \<and> read_excel broken_world ''/tmp/book.xlsx'' ''Sheet1'' 2 None = None
   \<and> import_preview_data broken_world (xlsx_popup ''2'') = Inr (xlsx_popup ''2'')
   \<and> filepath (csv_popup\<lparr>filepath := Some ''/tmp/survey.sav'',
                          import_options_frame := Some SPSSOptionsFrame\<rparr>)
       = Some ''/tmp/survey.sav''
   \<and> endswith ''/tmp/survey.sav'' ''.sav''
   \<and> read_spss sample_world ''/tmp/survey.sav'' = None
   \<and> import_preview_data sample_world
        (csv_popup\<lparr>filepath := Some ''/tmp/survey.sav'',
                   import_options_frame := Some SPSSOptionsFrame\<rparr>)
       = Inr (csv_popup\<lparr>filepath := Some ''/tmp/survey.sav'',
                        import_options_frame := Some SPSSOptionsFrame\<rparr>)"
proof -
  have a: "filepath (csv_popup\<lparr>import_options_frame := Some (CSVOptionsFrame '';'' ''-999'')\<rparr>)
     = Some ''/tmp/sales_Q1.csv''"
    "endswith ''/tmp/sales_Q1.csv'' ''.csv''"
    "get_separator (import_options_frame
        (csv_popup\<lparr>import_options_frame := Some (CSVOptionsFrame '';'' ''-999'')\<rparr>)) = Inr '';''"
    "get_na_value (import_options_frame
        (csv_popup\<lparr>import_options_frame := Some (CSVOptionsFrame '';'' ''-999'')\<rparr>))
       = Inr (Some ''-999'')"
    "read_csv sample_world ''/tmp/sales_Q1.csv'' '';'' (Some ''-999'') = None"
    by (simp_all add: endswith_def sample_defs)
  have b: "filepath (xlsx_popup ''2'') = Some ''/tmp/book.xlsx''"
    "endswith ''/tmp/book.xlsx'' ''.xlsx''"
    "get_skiprows broken_world (import_options_frame (xlsx_popup ''2'')) = Inr 2"
    "get_sheet_name (import_options_frame (xlsx_popup ''2'')) = Inr ''Sheet1''"
    "get_na_value (import_options_frame (xlsx_popup ''2'')) = Inr None"
    "read_excel broken_world ''/tmp/book.xlsx'' ''Sheet1'' 2 None = None"
    by (simp_all add: endswith_def sample_defs)
  have c: "filepath (csv_popup\<lparr>filepath := Some ''/tmp/survey.sav'',
                          import_options_frame := Some SPSSOptionsFrame\<rparr>)
       = Some ''/tmp/survey.sav''"
    "endswith ''/tmp/survey.sav'' ''.sav''"
    "read_spss sample_world ''/tmp/survey.sav'' = None"
    by (simp_all add: endswith_def sample_defs)
  from refresh_parser_failure_silent
    [of "csv_popup\<lparr>import_options_frame := Some (CSVOptionsFrame '';'' ''-999'')\<rparr>"
        "''/tmp/sales_Q1.csv''" "'';''" "Some ''-999''" sample_world
        "xlsx_popup ''2''" "''/tmp/book.xlsx''" broken_world 2 "''Sheet1''" None
        "csv_popup\<lparr>filepath := Some ''/tmp/survey.sav'',
                   import_options_frame := Some SPSSOptionsFrame\<rparr>"
        "''/tmp/survey.sav''" sample_world]
    a b c
  show ?thesis by blast
qed

text \<open>
  C5: over any run of refreshes, option edits and preview toggles, when some refresh
  succeeded, a click on Import stores the table of the most recent refresh that
  succeeded, and \<open>show\<close> returns that table.
\<close>

theorem commit_returns_last_parsed:
  assumes "last_parsed evs p = Some df"
  shows "data_frame (click_import (run evs p)) = Some df
         \<and> dict_data_frame (show_result w (click_import (run evs p))) = Some df"
proof -
  have "import_btn (run evs p) = Some df"
    using assms by (simp add: import_btn_run)
  then show ?thesis
    by (simp add: click_import_def return_data_def show_result_def)
qed

theorem commit_returns_last_parsed_witness:
  "last_parsed [(sample_world, RefreshPreview), (later_world, RefreshPreview),
                (later_world, SetSeparator ''|''), (later_world, RefreshPreview)] csv_popup
     = Some book
   \<and> refresh_table sample_world csv_popup = Some sales
   \<and> sales \<noteq> book
   \<and> data_frame (click_import (run [(sample_world, RefreshPreview), (later_world, RefreshPreview),
                (later_world, SetSeparator ''|''), (later_world, RefreshPreview)] csv_popup))
     = Some book"
proof -
  have h: "last_parsed [(sample_world, RefreshPreview), (later_world, RefreshPreview),
                (later_world, SetSeparator ''|''), (later_world, RefreshPreview)] csv_popup
     = Some book"
    by (simp add: import_preview_data_def load_selected_def refresh_table_def endswith_def
        sample_defs)
  have "refresh_table sample_world csv_popup = Some sales" "sales \<noteq> book"
    by (simp_all add: load_selected_def refresh_table_def endswith_def sample_defs)
  with h commit_returns_last_parsed [OF h] show ?thesis by simp
qed

text \<open>
  C9: switching the preview check box changes the \<open>show_preview\<close> flag and nothing
  else: the table bound to the Import button, the returned data and the preview table
  stay as they were, so after switching it off and on again the preview table is the
  one shown before.
\<close>

theorem toggle_preview_display_only:
  "import_btn (handle w TogglePreview p) = import_btn p
   \<and> data_frame (handle w TogglePreview p) = data_frame p
   \<and> preview_tableview (handle w TogglePreview p) = preview_tableview p
   \<and> handle w TogglePreview p = p\<lparr>show_preview := show_preview (handle w TogglePreview p)\<rparr>
   \<and> preview_tableview (run [(w, TogglePreview), (w', TogglePreview)] p) = preview_tableview p
   \<and> import_btn (run [(w, TogglePreview), (w', TogglePreview)] p) = import_btn p"
  by (simp add: toggle_preview_def)

section \<open>What the caller receives\<close>

text \<open>
  C4 at two committed flows: for \<open>/tmp/a+b.csv\<close> the name \<open>show\<close> returns is \<open>b\<close>, not the
  base name's text \<open>a+b\<close> before the dot, and for \<open>/home/user.name/data.csv\<close> it is
  \<open>user\<close>, not \<open>data\<close>; for \<open>/tmp/sales_Q1.csv\<close> it is \<open>sales_Q1\<close>.
\<close>

theorem show_name_misses_base_name:
  "dict_data_frame (show_result sample_world (click_import (state_after
      (select_file sample_world ''/tmp/a+b.csv'' init_popup)))) = Some sales
   \<and> dict_data_name (show_result sample_world (click_import (state_after
      (select_file sample_world ''/tmp/a+b.csv'' init_popup)))) = Some ''b''
   \<and> dict_data_name (show_result sample_world (click_import (state_after
      (select_file sample_world ''/home/user.name/data.csv'' init_popup)))) = Some ''user''
   \<and> dict_data_name (show_result sample_world (click_import (state_after
      (select_file sample_world ''/tmp/sales_Q1.csv'' init_popup)))) = Some ''sales_Q1''"
  by (simp add: select_file_def import_preview_data_def load_selected_def forget_options_def
      click_import_def return_data_def show_result_def endswith_def name_char_def sample_defs)

text \<open>
  C8 at a popup that is opened and closed at once: \<open>import_data\<close> of \<open>src/dataimport\<close>
  hands the caller the dictionary of \<open>show\<close>, which is not \<open>None\<close>, and
  \<open>open_import_window\<close> then fails on its \<open>columns\<close>; with the \<open>show\<close> of \<open>src/DataImport\<close>
  the caller receives \<open>None\<close> and the application is left as it was.
\<close>

theorem closed_popup_returns_dict:
  "import_data w (close_window init_popup)
     = PyDict \<lparr>dict_data_frame = None, dict_data_name = None\<rparr>
   \<and> import_data w (close_window init_popup) \<noteq> PyNone
   \<and> open_import_window (import_data w (close_window init_popup)) init_app = Inl AttributeError
   \<and> DataImport_import_data (close_window init_popup) = PyNone
   \<and> open_import_window (DataImport_import_data (close_window init_popup)) init_app
       = Inr init_app"
  by (simp add: import_data_def show_result_def close_window_def init_popup_def
      DataImport_import_data_def DataImport_show_def)

end
